theory Spec2Isabelle
  imports Complex_Main
begin

section \<open>The player controller of platformer2 (Player.js)\<close>

text \<open>
  A shallow embedding of \<^verbatim>\<open>src/assets/js/platformer2/Player.js\<close>. The class
  \<^verbatim>\<open>Player extends Character\<close> becomes a record extending the record of the
  inherited fields; the module-level singleton \<^verbatim>\<open>GameEnv\<close> becomes a record that
  is passed explicitly; timers, sounds and level transitions, which the JavaScript
  hands to the browser and to imported modules, become lists kept in the world.

  JavaScript numbers are modelled as real numbers: positions, speeds and the
  screen width are exact, so rounding, NaN and the infinities of IEEE doubles are
  outside the model.
\<close>

subsection \<open>Data\<close>

datatype error = TypeError

text \<open>The result of running a method: it returns, or it throws. JavaScript keeps
  every assignment made before a throw, so both cases carry the state reached.\<close>

datatype ('a, 's) outcome = Returned 'a 's | Threw error 's

fun final :: "('a, 's) outcome \<Rightarrow> 's" where
  "final (Returned v s) = s"
| "final (Threw e s) = s"

fun returned :: "('a, 's) outcome \<Rightarrow> bool" where
  "returned (Returned v s) = True"
| "returned (Threw e s) = False"

text \<open>An animation descriptor \<^verbatim>\<open>{row, frames, idleFrame?: {column, frames}}\<close>.\<close>

record idleFrame =
  column :: int
  idle_frames :: int

record animation =
  row :: int
  frames :: int
  idleFrame :: "idleFrame option"

text \<open>A property of \<^verbatim>\<open>playerData\<close> holds a descriptor, or \<^verbatim>\<open>undefined\<close> (which
  \<^verbatim>\<open>playerData.w = playerData.wa\<close> stores when there is no \<^verbatim>\<open>wa\<close>). A key with
  no own property is \<open>None\<close> in the map; reading it gives \<^verbatim>\<open>undefined\<close> too.\<close>

datatype jsval = Undefined | Descriptor animation

type_synonym table = "string \<rightharpoonup> jsval"

definition get :: "table \<Rightarrow> string \<Rightarrow> jsval" where
  "get obj key = (case obj key of None \<Rightarrow> Undefined | Some v \<Rightarrow> v)"

definition hasOwnProperty :: "table \<Rightarrow> string \<Rightarrow> bool" where
  "hasOwnProperty obj key \<longleftrightarrow> obj key \<noteq> None"

text \<open>\<^verbatim>\<open>key in obj\<close>, for an object literal that starts empty: the own keys (names
  inherited from \<^verbatim>\<open>Object.prototype\<close> are not key names of the game).\<close>

definition has :: "table \<Rightarrow> string \<Rightarrow> bool" where
  "has obj key \<longleftrightarrow> obj key \<noteq> None"

record movement =
  up :: bool
  down :: bool
  left :: bool
  right :: bool

text \<open>\<^verbatim>\<open>collisionData.touchPoints\<close>: the other object's id, faces and x, and the
  faces of the player itself.\<close>

record touchPoints =
  other_id :: string
  other_left :: bool
  other_right :: bool
  other_top :: bool
  other_bottom :: bool
  other_x :: real
  this_left :: bool
  this_right :: bool
  this_top :: bool
  this_bottom :: bool

text \<open>\<^verbatim>\<open>canvas.style.transform\<close> is only ever assigned the template string
  \<^verbatim>\<open>rotate(${rotate}deg) translate(${translate}px, 0%)\<close>; the model keeps its two numbers.\<close>

datatype transform = RotateTranslate real real

text \<open>The fields inherited from \<^verbatim>\<open>Character\<close> that Player.js reads or writes.\<close>

record Character =
  x :: real
  y :: real
  bottom :: real
  speed :: real
  gravityEnabled :: bool
  frameX :: int
  frameY :: int
  minFrame :: int
  maxFrame :: int
  canvas_height :: real
  canvas_transform :: "transform option"
  canvas_filter :: "string option"
  collisionData :: touchPoints

record Player = Character +
  playerData :: table
  moveSpeed :: real
  pressedKeys :: table
  movement :: movement
  isIdle :: bool
  directionKey :: string
  transitionHide :: bool
  shouldBeSynced :: bool
  isDying :: bool
  name :: string

type_synonym level = string

text \<open>The fields of the singleton \<^verbatim>\<open>GameEnv\<close> used here. \<open>player\<close> says whether
  \<^verbatim>\<open>GameEnv.player\<close> refers to this controller; \<open>playerX\<close> and \<open>playerY\<close> are
  \<^verbatim>\<open>GameEnv.PlayerPosition\<close>; \<open>transitionHide_env\<close> is \<^verbatim>\<open>GameEnv.transitionHide\<close>.\<close>

record GameEnv =
  invincible :: bool
  player :: bool
  userID :: string
  playerX :: real
  playerY :: real
  difficulty :: string
  innerWidth :: real
  backgroundHillsSpeed :: real
  backgroundMountainsSpeed :: real
  transitionHide_env :: bool
  levels :: "level list"
  currentLevel :: level

text \<open>The three functions handed to \<^verbatim>\<open>setTimeout\<close>, and the two sounds.\<close>

datatype callback = TubeGravity | TubeExit | RestartLevel

datatype sound = Jump | PlayerDeath

text \<open>What lies outside the player object: the environment, the pending timers
  (delay in milliseconds and callback, in the order of the \<^verbatim>\<open>setTimeout\<close> calls),
  the number of restart callbacks suspended at their \<^verbatim>\<open>await\<close>, the sounds played,
  the arguments of the calls of \<^verbatim>\<open>GameControl.transitionToLevel\<close>, and the event
  types this player's handlers are subscribed to on \<^verbatim>\<open>document\<close>.\<close>

record host =
  env :: GameEnv
  timers :: "(nat \<times> callback) list"
  awaiting :: nat
  audio :: "sound list"
  transitions :: "level option list"
  listeners :: "string list"

record world = host +
  self :: Player

subsection \<open>Helper methods\<close>

definition isFaceLeft :: "Player \<Rightarrow> bool" where
  "isFaceLeft p \<longleftrightarrow> directionKey p = ''a''"

definition isKeyActionLeft :: "string \<Rightarrow> bool" where
  "isKeyActionLeft key \<longleftrightarrow> key = ''a''"

definition isFaceRight :: "Player \<Rightarrow> bool" where
  "isFaceRight p \<longleftrightarrow> directionKey p = ''d''"

definition isKeyActionRight :: "string \<Rightarrow> bool" where
  "isKeyActionRight key \<longleftrightarrow> key = ''d''"

definition isKeyActionDash :: "string \<Rightarrow> bool" where
  "isKeyActionDash key \<longleftrightarrow> key = ''s''"

definition isActiveAnimation :: "string \<Rightarrow> Player \<Rightarrow> bool" where
  "isActiveAnimation key p \<longleftrightarrow> has (pressedKeys p) key \<and> \<not> isIdle p"

text \<open>\<^verbatim>\<open>setAnimation\<close>: the descriptor is read first; the direction set-up runs;
  then \<^verbatim>\<open>animation.row\<close> throws when the descriptor is \<^verbatim>\<open>undefined\<close>.\<close>

definition setAnimation :: "string \<Rightarrow> Player \<Rightarrow> (unit, Player) outcome" where
  "setAnimation key p =
    (let animation = get (playerData p) key;
         p1 = (if isKeyActionLeft key
               then p\<lparr>directionKey := key,
                      playerData := (playerData p)(''w'' \<mapsto> get (playerData p) ''wa'')\<rparr>
               else if isKeyActionRight key
               then p\<lparr>directionKey := key,
                      playerData := (playerData p)(''w'' \<mapsto> get (playerData p) ''wd'')\<rparr>
               else p)
     in case animation of
          Undefined \<Rightarrow> Threw TypeError p1
        | Descriptor a \<Rightarrow>
            (let p2 = p1\<lparr>frameY := row a, maxFrame := frames a\<rparr>
             in case idleFrame a of
                  Some i \<Rightarrow>
                    if isIdle p2
                    then Returned () (p2\<lparr>frameX := column i, minFrame := idle_frames i\<rparr>)
                    else Returned () p2
                | None \<Rightarrow> Returned () p2))"

definition isActiveGravityAnimation :: "string \<Rightarrow> Player \<Rightarrow> (bool, Player) outcome" where
  "isActiveGravityAnimation key p =
    (let result = (isActiveAnimation key p \<and> (bottom p \<le> y p \<or> \<not> down (movement p)))
     in if bottom p \<le> y p \<or> \<not> down (movement p)
        then (case setAnimation (directionKey p) p of
                Threw e p' \<Rightarrow> Threw e p'
              | Returned u p' \<Rightarrow> Returned result p')
        else Returned result p)"

subsection \<open>Construction\<close>

text \<open>The constructor, after \<^verbatim>\<open>super(...)\<close> has built the inherited part \<open>c\<close>.\<close>

definition constructor :: "Character \<Rightarrow> table \<Rightarrow> host \<Rightarrow> world" where
  "constructor c data h =
    (let e1 = (env h)\<lparr>invincible := False\<rparr>;
         p = Character.extend c
               (Player.fields data (speed c * 3) Map.empty
                  \<lparr>up = True, down = True, left = True, right = True\<rparr>
                  True ''d'' False True False (userID e1))
     in host.extend
          (h\<lparr>env := e1\<lparr>player := True\<rparr>,
             listeners := listeners h @ [''keydown'', ''keyup'']\<rparr>)
          (world.fields p))"

subsection \<open>The per-frame update\<close>

text \<open>Lines 120 to 127: the lateral movement.\<close>

definition update_lateral :: "Player \<Rightarrow> Player" where
  "update_lateral p =
    (let p1 = (if isActiveAnimation ''a'' p
               then (if left (movement p)
                     then p\<lparr>x := x p - (if isActiveAnimation ''s'' p then moveSpeed p else speed p)\<rparr>
                     else p)
               else p)
     in if isActiveAnimation ''d'' p1
        then (if right (movement p1)
              then p1\<lparr>x := x p1 + (if isActiveAnimation ''s'' p1 then moveSpeed p1 else speed p1)\<rparr>
              else p1)
        else p1)"

text \<open>Lines 133 to 144: the body of the jump branch.\<close>

definition update_jump :: "world \<Rightarrow> world" where
  "update_jump w =
    (let w1 = w\<lparr>audio := audio w @ [Jump]\<rparr>;
         p = self w1
     in if gravityEnabled p
        then (if difficulty (env w1) = ''easy''
              then w1\<lparr>self := p\<lparr>y := y p - bottom p * 0.50\<rparr>\<rparr>
              else if difficulty (env w1) = ''normal''
              then w1\<lparr>self := p\<lparr>y := y p - bottom p * 0.40\<rparr>\<rparr>
              else w1\<lparr>self := p\<lparr>y := y p - bottom p * 0.30\<rparr>\<rparr>)
        else if \<not> down (movement p)
        then w1\<lparr>self := p\<lparr>y := y p - bottom p * 0.15\<rparr>\<rparr>
        else w1)"

text \<open>Lines 147 to 151: the tube clamp.\<close>

definition update_tube :: "world \<Rightarrow> world" where
  "update_tube w =
    (let tubeX = 0.80 * innerWidth (env w)
     in if x (self w) \<ge> tubeX \<and> x (self w) \<le> innerWidth (env w)
        then w\<lparr>self := (self w)\<lparr>x := tubeX - 1\<rparr>\<rparr>
        else w)"

text \<open>Lines 153 to 159: the left edge of the screen.\<close>

definition update_screen :: "world \<Rightarrow> world" where
  "update_screen w =
    (if x (self w) < 0
     then w\<lparr>self := (self w)\<lparr>x := 1\<rparr>,
            env := (env w)\<lparr>backgroundHillsSpeed := 0, backgroundMountainsSpeed := 0\<rparr>\<rparr>
     else w)"

text \<open>\<^verbatim>\<open>update\<close> up to, and without, the final \<^verbatim>\<open>super.update()\<close>.\<close>

definition update_player :: "world \<Rightarrow> (unit, world) outcome" where
  "update_player w =
    (let w1 = w\<lparr>env := (env w)\<lparr>playerX := x (self w), playerY := y (self w)\<rparr>\<rparr>;
         p = update_lateral (self w1)
     in case isActiveGravityAnimation ''w'' p of
          Threw e p' \<Rightarrow> Threw e (w1\<lparr>self := p'\<rparr>)
        | Returned jumping p' \<Rightarrow>
            (let w2 = w1\<lparr>self := p'\<rparr>;
                 w3 = (if jumping then update_jump w2 else w2)
             in Returned () (update_screen (update_tube w3))))"

text \<open>\<^verbatim>\<open>update\<close>; the inherited \<^verbatim>\<open>Character.update\<close> is a parameter.\<close>

definition update :: "(world \<Rightarrow> (unit, world) outcome) \<Rightarrow> world \<Rightarrow> (unit, world) outcome" where
  "update super_update w =
    (case update_player w of
       Threw e w' \<Rightarrow> Threw e w'
     | Returned u w' \<Rightarrow> super_update w')"

subsection \<open>Collisions\<close>

text \<open>Lines 190 to 215: the tube.\<close>

definition collision_tube :: "world \<Rightarrow> world" where
  "collision_tube w =
    (let tp = collisionData (self w)
     in if other_id tp = ''tube''
        then (let p = self w;
                  p1 = (if other_left tp then p\<lparr>movement := (movement p)\<lparr>right := False\<rparr>\<rparr> else p);
                  p2 = (if other_right tp then p1\<lparr>movement := (movement p1)\<lparr>left := False\<rparr>\<rparr> else p1)
              in if other_bottom tp
                 then w\<lparr>self := p2\<lparr>x := other_x tp, gravityEnabled := False\<rparr>,
                        timers := timers w @ [(1000, TubeGravity)]\<rparr>
                 else w\<lparr>self := p2\<rparr>)
        else w\<lparr>self := (self w)\<lparr>movement := (movement (self w))\<lparr>left := True, right := True\<rparr>\<rparr>\<rparr>)"

text \<open>Lines 217 to 242: goombas. The condition \<^verbatim>\<open>GameEnv.invincible = true\<close> is an
  assignment: it stores \<^verbatim>\<open>true\<close> and the branch tests the value stored.\<close>

definition collision_enemy :: "world \<Rightarrow> world" where
  "collision_enemy w =
    (let tp = collisionData (self w)
     in if other_id tp \<in> set [''goomba'', ''flyingGoomba'']
        then (let direction = (if other_left tp then - 1 else 1 :: real)
              in if difficulty (env w) = ''easy''
                 then w\<lparr>self := (self w)\<lparr>x := x (self w) + 10 * direction\<rparr>\<rparr>
                 else (let w1 = w\<lparr>env := (env w)\<lparr>invincible := True\<rparr>\<rparr>
                       in if invincible (env w1)
                          then (let rotate = 90 * direction;
                                    translate = canvas_height (self w1) * 0.5 * direction;
                                    w2 = w1\<lparr>self := (self w1)\<lparr>canvas_transform :=
                                                Some (RotateTranslate rotate translate)\<rparr>\<rparr>;
                                    w3 = w2\<lparr>audio := audio w2 @ [PlayerDeath]\<rparr>
                                in if \<not> isDying (self w3)
                                   then w3\<lparr>self := (self w3)\<lparr>isDying := True\<rparr>,
                                           timers := timers w3 @ [(700, RestartLevel)]\<rparr>
                                   else w3)
                          else w1))
        else w)"

text \<open>Lines 243 to 267: the jump platform, and falling off its edge.\<close>

definition collision_jumpPlatform :: "world \<Rightarrow> (unit, world) outcome" where
  "collision_jumpPlatform w =
    (let tp = collisionData (self w); p = self w
     in if other_id tp = ''jumpPlatform''
        then (let p1 = (if other_left tp
                        then p\<lparr>movement := (movement p)\<lparr>right := False\<rparr>, gravityEnabled := True\<rparr>
                        else p);
                  p2 = (if other_right tp
                        then p1\<lparr>movement := (movement p1)\<lparr>left := False\<rparr>, gravityEnabled := True\<rparr>
                        else p1)
              in if this_top tp
                 then (let p3 = p2\<lparr>movement := (movement p2)\<lparr>down := False\<rparr>,
                                   gravityEnabled := False\<rparr>
                       in case setAnimation (directionKey p3) p3 of
                            Threw e p' \<Rightarrow> Threw e (w\<lparr>self := p'\<rparr>)
                          | Returned u p' \<Rightarrow> Returned () (w\<lparr>self := p'\<rparr>))
                 else Returned () (w\<lparr>self := p2\<rparr>))
        else if \<not> down (movement p)
        then Returned () (w\<lparr>self := p\<lparr>movement := (movement p)\<lparr>down := True\<rparr>,
                                      gravityEnabled := True\<rparr>\<rparr>)
        else Returned () w)"

definition collisionAction :: "world \<Rightarrow> (unit, world) outcome" where
  "collisionAction w = collision_jumpPlatform (collision_enemy (collision_tube w))"

subsection \<open>Timers\<close>

text \<open>\<^verbatim>\<open>Array.prototype.indexOf\<close> and the array read \<^verbatim>\<open>levels[i]\<close>, which is
  \<^verbatim>\<open>undefined\<close> (here \<open>None\<close>) at the index \<open>-1\<close>.\<close>

fun indexOf :: "'a list \<Rightarrow> 'a \<Rightarrow> int" where
  "indexOf [] v = - 1"
| "indexOf (u # us) v =
     (if u = v then 0 else (let i = indexOf us v in if i < 0 then - 1 else i + 1))"

definition at_index :: "'a list \<Rightarrow> int \<Rightarrow> 'a option" where
  "at_index xs i = (if 0 \<le> i \<and> i < int (length xs) then Some (xs ! nat i) else None)"

text \<open>The body of each function handed to \<^verbatim>\<open>setTimeout\<close>. The restart callback is
  asynchronous: \<open>run\<close> takes it up to its \<^verbatim>\<open>await\<close>, where it has called
  \<^verbatim>\<open>GameControl.transitionToLevel\<close> and is suspended; \<open>resume\<close> is the rest of it,
  run when the awaited transition has completed.\<close>

definition run :: "callback \<Rightarrow> world \<Rightarrow> world" where
  "run cb w =
    (case cb of
       TubeGravity \<Rightarrow>
         w\<lparr>self := (self w)\<lparr>gravityEnabled := True\<rparr>, timers := timers w @ [(1000, TubeExit)]\<rparr>
     | TubeExit \<Rightarrow> w\<lparr>self := (self w)\<lparr>x := innerWidth (env w) + 1\<rparr>\<rparr>
     | RestartLevel \<Rightarrow>
         w\<lparr>transitions := transitions w @
              [at_index (levels (env w)) (indexOf (levels (env w)) (currentLevel (env w)))],
           awaiting := awaiting w + 1\<rparr>)"

definition resume :: "world \<Rightarrow> world" where
  "resume w = w\<lparr>self := (self w)\<lparr>isDying := False\<rparr>, awaiting := awaiting w - 1\<rparr>"

subsection \<open>Keyboard handlers\<close>

definition handleKeyDown :: "string \<Rightarrow> world \<Rightarrow> (unit, world) outcome" where
  "handleKeyDown key w =
    (if hasOwnProperty (playerData (self w)) key
     then (let latched =
                 (if \<not> has (pressedKeys (self w)) key
                  then (let p = self w;
                            p1 = p\<lparr>pressedKeys := (pressedKeys p)(key \<mapsto> get (playerData p) key)\<rparr>
                        in case setAnimation key p1 of
                             Threw e p' \<Rightarrow> Threw e (w\<lparr>self := p'\<rparr>)
                           | Returned u p' \<Rightarrow>
                               Returned () (w\<lparr>self := p'\<lparr>isIdle := False\<rparr>,
                                              env := (env w)\<lparr>transitionHide_env := True\<rparr>\<rparr>))
                  else Returned () w)
           in case latched of
                Threw e w' \<Rightarrow> Threw e w'
              | Returned u w1 \<Rightarrow>
                  (let w2 = (if isKeyActionDash key
                             then w1\<lparr>self := (self w1)\<lparr>canvas_filter := Some ''invert(1)''\<rparr>\<rparr>
                             else w1)
                   in if isKeyActionLeft key \<and> x (self w2) > 2
                      then Returned () (w2\<lparr>env := (env w2)\<lparr>backgroundHillsSpeed := - 0.4,
                                                            backgroundMountainsSpeed := - 0.1\<rparr>\<rparr>)
                      else if isKeyActionRight key
                      then Returned () (w2\<lparr>env := (env w2)\<lparr>backgroundHillsSpeed := 0.4,
                                                            backgroundMountainsSpeed := 0.1\<rparr>\<rparr>)
                      else Returned () w2))
     else Returned () w)"

definition handleKeyUp :: "string \<Rightarrow> world \<Rightarrow> (unit, world) outcome" where
  "handleKeyUp key w =
    (if hasOwnProperty (playerData (self w)) key
     then (let p = self w;
               p1 = (if has (pressedKeys p) key
                     then p\<lparr>pressedKeys := (pressedKeys p)(key := None)\<rparr>
                     else p)
           in case setAnimation key p1 of
                Threw e p' \<Rightarrow> Threw e (w\<lparr>self := p'\<rparr>)
              | Returned u p' \<Rightarrow>
                  (let p2 = p'\<lparr>isIdle := True\<rparr>;
                       p3 = (if isKeyActionDash key
                             then p2\<lparr>canvas_filter := Some ''invert(0)''\<rparr>
                             else p2);
                       w1 = w\<lparr>self := p3\<rparr>
                   in if isKeyActionLeft key \<or> isKeyActionRight key \<or> isKeyActionDash key
                      then Returned () (w1\<lparr>env := (env w1)\<lparr>backgroundHillsSpeed := 0,
                                                            backgroundMountainsSpeed := 0\<rparr>\<rparr>)
                      else Returned () w1))
     else Returned () w)"

subsection \<open>Events\<close>

text \<open>What the browser and the game loop deliver to the player, one event at a time
  (JavaScript runs each handler to completion): a key event, the player's part of a
  frame, a collision (the collision detection stores the touch points in
  \<^verbatim>\<open>collisionData\<close>, then calls \<^verbatim>\<open>collisionAction\<close>), the expiry of a pending
  timer, and the completion of an awaited level transition. An exception thrown by a
  handler ends that handler only.\<close>

datatype event =
  KeyDown string
| KeyUp string
| Frame
| Collision touchPoints
| Timeout nat
| TransitionCompleted

definition touch :: "touchPoints \<Rightarrow> world \<Rightarrow> world" where
  "touch tp w = w\<lparr>self := (self w)\<lparr>collisionData := tp\<rparr>\<rparr>"

fun deliver :: "event \<Rightarrow> world \<Rightarrow> world" where
  "deliver (KeyDown key) w = final (handleKeyDown key w)"
| "deliver (KeyUp key) w = final (handleKeyUp key w)"
| "deliver Frame w = final (update_player w)"
| "deliver (Collision tp) w = final (collisionAction (touch tp w))"
| "deliver (Timeout i) w =
     (if i < length (timers w)
      then run (snd (timers w ! i)) (w\<lparr>timers := take i (timers w) @ drop (Suc i) (timers w)\<rparr>)
      else w)"
| "deliver TransitionCompleted w = (if 0 < awaiting w then resume w else w)"

subsection \<open>Vocabulary of the properties\<close>

text \<open>The number of level restarts scheduled and not yet started.\<close>

definition restarts :: "world \<Rightarrow> nat" where
  "restarts w = length (filter (\<lambda>t. snd t = RestartLevel) (timers w))"

text \<open>The other object is a goomba or a flying goomba.\<close>

definition enemy :: "touchPoints \<Rightarrow> bool" where
  "enemy tp \<longleftrightarrow> other_id tp = ''goomba'' \<or> other_id tp = ''flyingGoomba''"



text \<open>The same world with the player at another \<open>x\<close>, and with the dash key latched
  or not.\<close>

definition place :: "real \<Rightarrow> world \<Rightarrow> world" where
  "place x0 w = w\<lparr>self := (self w)\<lparr>x := x0\<rparr>\<rparr>"


subsection \<open>A sample level\<close>

text \<open>A sprite table with the six keys of the game, a character as the inherited
  constructor leaves it, and a host of a given difficulty and screen width, in which
  an earlier level has left the invincibility flag set.\<close>

definition sprite :: table where
  "sprite =
    [''w'' \<mapsto> Descriptor \<lparr>row = 10, frames = 15, idleFrame = None\<rparr>,
     ''wa'' \<mapsto> Descriptor \<lparr>row = 11, frames = 15, idleFrame = None\<rparr>,
     ''wd'' \<mapsto> Descriptor \<lparr>row = 10, frames = 15, idleFrame = None\<rparr>,
     ''a'' \<mapsto> Descriptor \<lparr>row = 3, frames = 7, idleFrame = Some \<lparr>column = 7, idle_frames = 0\<rparr>\<rparr>,
     ''s'' \<mapsto> Descriptor \<lparr>row = 3, frames = 7, idleFrame = Some \<lparr>column = 7, idle_frames = 0\<rparr>\<rparr>,
     ''d'' \<mapsto> Descriptor \<lparr>row = 2, frames = 7, idleFrame = Some \<lparr>column = 7, idle_frames = 0\<rparr>\<rparr>]"

definition contact :: "string \<Rightarrow> bool \<Rightarrow> bool \<Rightarrow> bool \<Rightarrow> touchPoints" where
  "contact ident l r t =
    \<lparr>other_id = ident, other_left = l, other_right = r, other_top = False,
     other_bottom = False, other_x = 500, this_left = r, this_right = l, this_top = t,
     this_bottom = False\<rparr>"

definition mario :: Character where
  "mario =
    \<lparr>x = 100, y = 400, bottom = 400, speed = 10, gravityEnabled = True, frameX = 0,
     frameY = 0, minFrame = 0, maxFrame = 0, canvas_height = 600, canvas_transform = None,
     canvas_filter = None, collisionData = contact ''floor'' False False False\<rparr>"

definition browser :: "string \<Rightarrow> real \<Rightarrow> host" where
  "browser d width =
    \<lparr>env = \<lparr>invincible = True, player = False, userID = ''guest'', playerX = 0, playerY = 0,
            difficulty = d, innerWidth = width, backgroundHillsSpeed = 0,
            backgroundMountainsSpeed = 0, transitionHide_env = False,
            levels = [''hills'', ''end''], currentLevel = ''hills''\<rparr>,
     timers = [], awaiting = 0, audio = [], transitions = [], listeners = []\<rparr>"

definition start :: "string \<Rightarrow> real \<Rightarrow> world" where
  "start d width = constructor mario sprite (browser d width)"

section \<open>Properties\<close>

subsection \<open>Auxiliary facts\<close>

lemmas sample_defs = start_def constructor_def mario_def sprite_def browser_def contact_def
  touch_def Character.defs Player.defs host.defs world.defs

lemma enemy_not_tube:
  "enemy tp \<Longrightarrow> other_id tp \<noteq> ''tube'' \<and> other_id tp \<noteq> ''jumpPlatform''"
  by (auto simp add: enemy_def)

lemma enemy_includes: "enemy tp \<longleftrightarrow> other_id tp \<in> set [''goomba'', ''flyingGoomba'']"
  by (auto simp add: enemy_def)

lemma collision_tube_other:
  "other_id (collisionData (self w)) \<noteq> ''tube'' \<Longrightarrow>
   collision_tube w =
     w\<lparr>self := (self w)\<lparr>movement := (movement (self w))\<lparr>left := True, right := True\<rparr>\<rparr>\<rparr>"
  by (simp add: collision_tube_def Let_def)

lemma collision_jumpPlatform_other:
  "other_id (collisionData (self w)) \<noteq> ''jumpPlatform'' \<Longrightarrow>
   collision_jumpPlatform w =
     (if \<not> down (movement (self w))
      then Returned () (w\<lparr>self := (self w)\<lparr>movement := (movement (self w))\<lparr>down := True\<rparr>,
                                          gravityEnabled := True\<rparr>\<rparr>)
      else Returned () w)"
  by (simp add: collision_jumpPlatform_def Let_def)


lemma collision_enemy_other:
  "\<not> enemy (collisionData (self w)) \<Longrightarrow> collision_enemy w = w"
  by (simp add: collision_enemy_def enemy_includes Let_def del: set_simps)

lemma collision_enemy_lethal:
  assumes "enemy (collisionData (self w))" and "difficulty (env w) \<noteq> ''easy''"
  shows "env (collision_enemy w) = (env w)\<lparr>invincible := True\<rparr>"
    and "audio (collision_enemy w) = audio w @ [PlayerDeath]"
    and "timers (collision_enemy w) =
           timers w @ (if isDying (self w) then [] else [(700, RestartLevel)])"
    and "self (collision_enemy w) =
           (self w)\<lparr>canvas_transform := Some (RotateTranslate
               (90 * (if other_left (collisionData (self w)) then - 1 else 1))
               (canvas_height (self w) * 0.5 *
                  (if other_left (collisionData (self w)) then - 1 else 1))),
             isDying := True\<rparr>"
    and "awaiting (collision_enemy w) = awaiting w"
    and "transitions (collision_enemy w) = transitions w"
  using assms
  by (simp_all add: collision_enemy_def enemy_includes Let_def del: set_simps)

lemma enemy_collision_lethal:
  assumes "enemy (collisionData (self w))" and "difficulty (env w) \<noteq> ''easy''"
  shows "returned (collisionAction w)"
    and "env (final (collisionAction w)) = (env w)\<lparr>invincible := True\<rparr>"
    and "audio (final (collisionAction w)) = audio w @ [PlayerDeath]"
    and "timers (final (collisionAction w)) =
           timers w @ (if isDying (self w) then [] else [(700, RestartLevel)])"
    and "isDying (self (final (collisionAction w)))"
    and "canvas_transform (self (final (collisionAction w))) =
           Some (RotateTranslate
               (90 * (if other_left (collisionData (self w)) then - 1 else 1))
               (canvas_height (self w) * 0.5 *
                  (if other_left (collisionData (self w)) then - 1 else 1)))"
    and "awaiting (final (collisionAction w)) = awaiting w"
  using assms enemy_not_tube [OF assms(1)]
  by (simp_all add: collisionAction_def collision_tube_other collision_jumpPlatform_other
      collision_enemy_lethal)

lemma setAnimation_keeps:
  "isDying (final (setAnimation key p)) = isDying p"
  "moveSpeed (final (setAnimation key p)) = moveSpeed p"
  "speed (final (setAnimation key p)) = speed p"
  "x (final (setAnimation key p)) = x p"
  "y (final (setAnimation key p)) = y p"
  "bottom (final (setAnimation key p)) = bottom p"
  "gravityEnabled (final (setAnimation key p)) = gravityEnabled p"
  "movement (final (setAnimation key p)) = movement p"
  "pressedKeys (final (setAnimation key p)) = pressedKeys p"
  "isIdle (final (setAnimation key p)) = isIdle p"
  by (simp_all add: setAnimation_def Let_def split: jsval.splits option.splits)

lemma final_eq:
  "out = Returned u s \<Longrightarrow> final out = s"
  "out = Threw e s \<Longrightarrow> final out = s"
  by simp_all

lemma handleKeyDown_keeps:
  "isDying (self (final (handleKeyDown key w))) = isDying (self w)"
  "moveSpeed (self (final (handleKeyDown key w))) = moveSpeed (self w)"
  "speed (self (final (handleKeyDown key w))) = speed (self w)"
  by (auto simp add: handleKeyDown_def Let_def setAnimation_keeps split: outcome.splits
      dest!: final_eq)

lemma handleKeyUp_keeps:
  "isDying (self (final (handleKeyUp key w))) = isDying (self w)"
  "moveSpeed (self (final (handleKeyUp key w))) = moveSpeed (self w)"
  "speed (self (final (handleKeyUp key w))) = speed (self w)"
  by (auto simp add: handleKeyUp_def Let_def setAnimation_keeps split: outcome.splits
      dest!: final_eq)

lemma isActiveGravityAnimation_keeps:
  "isDying (final (isActiveGravityAnimation key p)) = isDying p"
  "moveSpeed (final (isActiveGravityAnimation key p)) = moveSpeed p"
  "speed (final (isActiveGravityAnimation key p)) = speed p"
  "x (final (isActiveGravityAnimation key p)) = x p"
  "y (final (isActiveGravityAnimation key p)) = y p"
  "bottom (final (isActiveGravityAnimation key p)) = bottom p"
  "gravityEnabled (final (isActiveGravityAnimation key p)) = gravityEnabled p"
  "movement (final (isActiveGravityAnimation key p)) = movement p"
  by (auto simp add: isActiveGravityAnimation_def Let_def setAnimation_keeps
      split: outcome.splits dest!: final_eq)

lemma update_lateral_keeps:
  "isDying (update_lateral p) = isDying p"
  "moveSpeed (update_lateral p) = moveSpeed p"
  "speed (update_lateral p) = speed p"
  "y (update_lateral p) = y p"
  "bottom (update_lateral p) = bottom p"
  "gravityEnabled (update_lateral p) = gravityEnabled p"
  "movement (update_lateral p) = movement p"
  "pressedKeys (update_lateral p) = pressedKeys p"
  "isIdle (update_lateral p) = isIdle p"
  "playerData (update_lateral p) = playerData p"
  "directionKey (update_lateral p) = directionKey p"
  by (simp_all add: update_lateral_def Let_def)

lemma update_player_keeps:
  "isDying (self (final (update_player w))) = isDying (self w)"
  "moveSpeed (self (final (update_player w))) = moveSpeed (self w)"
  "speed (self (final (update_player w))) = speed (self w)"
  by (auto simp add: update_player_def update_jump_def update_tube_def update_screen_def
      Let_def isActiveGravityAnimation_keeps update_lateral_keeps
      split: outcome.splits dest!: final_eq)

lemma collision_tube_keeps:
  "isDying (self (collision_tube w)) = isDying (self w)"
  "moveSpeed (self (collision_tube w)) = moveSpeed (self w)"
  "speed (self (collision_tube w)) = speed (self w)"
  "timers (collision_tube w) =
     timers w @ (if other_id (collisionData (self w)) = ''tube'' \<and>
       other_bottom (collisionData (self w)) then [(1000, TubeGravity)] else [])"
  by (simp_all add: collision_tube_def Let_def)

lemma collision_enemy_keeps:
  "isDying (self w) \<Longrightarrow> isDying (self (collision_enemy w))"
  "moveSpeed (self (collision_enemy w)) = moveSpeed (self w)"
  "speed (self (collision_enemy w)) = speed (self w)"
  by (simp_all add: collision_enemy_def Let_def)

lemma collision_jumpPlatform_keeps:
  "isDying (self (final (collision_jumpPlatform w))) = isDying (self w)"
  "moveSpeed (self (final (collision_jumpPlatform w))) = moveSpeed (self w)"
  "speed (self (final (collision_jumpPlatform w))) = speed (self w)"
  by (auto simp add: collision_jumpPlatform_def Let_def setAnimation_keeps
      split: outcome.splits dest!: final_eq)

lemma collisionAction_keeps:
  "isDying (self w) \<Longrightarrow> isDying (self (final (collisionAction w)))"
  "moveSpeed (self (final (collisionAction w))) = moveSpeed (self w)"
  "speed (self (final (collisionAction w))) = speed (self w)"
  by (simp_all add: collisionAction_def collision_jumpPlatform_keeps collision_enemy_keeps
      collision_tube_keeps)

lemma run_keeps:
  "isDying (self (run cb w)) = isDying (self w)"
  "moveSpeed (self (run cb w)) = moveSpeed (self w)"
  "speed (self (run cb w)) = speed (self w)"
  by (simp_all add: run_def split: callback.splits)


lemma deliver_isDying:
  "isDying (self w) \<Longrightarrow> \<not> isDying (self (deliver e w)) \<Longrightarrow>
   e = TransitionCompleted \<and> 0 < awaiting w"
  by (cases e)
    (simp_all add: handleKeyDown_keeps handleKeyUp_keeps update_player_keeps
      collisionAction_keeps run_keeps touch_def split: if_splits)

lemma lethal_collision_step:
  assumes "enemy tp" and "difficulty (env w) \<noteq> ''easy''"
  shows "timers (deliver (Collision tp) w) =
           timers w @ (if isDying (self w) then [] else [(700, RestartLevel)])"
    and "isDying (self (deliver (Collision tp) w))"
    and "difficulty (env (deliver (Collision tp) w)) = difficulty (env w)"
proof -
  have e: "enemy (collisionData (self (touch tp w)))"
    and d: "difficulty (env (touch tp w)) \<noteq> ''easy''"
    using assms by (simp_all add: touch_def)
  show "timers (deliver (Collision tp) w) =
           timers w @ (if isDying (self w) then [] else [(700, RestartLevel)])"
    using enemy_collision_lethal(4) [OF e d] by (simp add: touch_def)
  show "isDying (self (deliver (Collision tp) w))"
    using enemy_collision_lethal(5) [OF e d] by simp
  show "difficulty (env (deliver (Collision tp) w)) = difficulty (env w)"
    using enemy_collision_lethal(2) [OF e d] by (simp add: touch_def)
qed

lemma lethal_collisions:
  assumes "\<forall>tp \<in> set tps. enemy tp" and "difficulty (env w) \<noteq> ''easy''"
  shows "timers (fold deliver (map Collision tps) w) =
           timers w @ (if isDying (self w) \<or> tps = [] then [] else [(700, RestartLevel)])"
  using assms
proof (induction tps arbitrary: w)
  case Nil
  then show ?case by simp
next
  case (Cons tp tps)
  from Cons.prems have e: "enemy tp" and es: "\<forall>tp \<in> set tps. enemy tp" by simp_all
  note step = lethal_collision_step [OF e Cons.prems(2)]
  from step(3) Cons.prems(2)
  have d: "difficulty (env (deliver (Collision tp) w)) \<noteq> ''easy''" by simp
  from Cons.IH [OF es d] step(1) step(2) show ?case by simp
qed


lemmas step_defs = handleKeyDown_def handleKeyUp_def update_player_def update_lateral_def
  update_jump_def update_tube_def update_screen_def isActiveGravityAnimation_def
  isActiveAnimation_def setAnimation_def collisionAction_def collision_tube_def
  collision_enemy_def collision_jumpPlatform_def get_def has_def hasOwnProperty_def
  isKeyActionLeft_def isKeyActionRight_def isKeyActionDash_def place_def Let_def

lemma setAnimation_returns:
  assumes "get (playerData p) key = Descriptor a"
  shows "setAnimation key p = Returned () (final (setAnimation key p))"
  using assms by (simp add: setAnimation_def Let_def split: option.splits)

lemma collision_jumpPlatform_top:
  assumes "other_id (collisionData (self w)) = ''jumpPlatform''"
    and "this_top (collisionData (self w))"
  shows "\<not> down (movement (self (final (collision_jumpPlatform w))))"
    and "\<not> gravityEnabled (self (final (collision_jumpPlatform w)))"
  using assms
  by (auto simp add: collision_jumpPlatform_def Let_def setAnimation_keeps
      split: outcome.splits dest!: final_eq)

lemma collision_jumpPlatform_none:
  assumes "other_id (collisionData (self w)) = ''jumpPlatform''"
    and "\<not> other_left (collisionData (self w))"
    and "\<not> other_right (collisionData (self w))"
    and "\<not> this_top (collisionData (self w))"
  shows "collision_jumpPlatform w = Returned () (w\<lparr>self := self w\<rparr>)"
  using assms by (simp add: collision_jumpPlatform_def Let_def)

lemma collision_tube_data:
  "collisionData (self (collision_tube w)) = collisionData (self w)"
  by (simp add: collision_tube_def Let_def)

lemma collision_enemy_data:
  "collisionData (self (collision_enemy w)) = collisionData (self w)"
  "down (movement (self (collision_enemy w))) = down (movement (self w))"
  "gravityEnabled (self (collision_enemy w)) = gravityEnabled (self w)"
  by (simp_all add: collision_enemy_def Let_def)

lemma collision_tube_down:
  "down (movement (self (collision_tube w))) = down (movement (self w))"
  by (simp add: collision_tube_def Let_def)

lemma collision_tube_gravity:
  "other_id (collisionData (self w)) \<noteq> ''tube'' \<Longrightarrow>
   gravityEnabled (self (collision_tube w)) = gravityEnabled (self w)"
  by (simp add: collision_tube_def Let_def)

lemma setAnimation_Returned:
  assumes "get (playerData p) key = Descriptor a"
  obtains q where "setAnimation key p = Returned () q" and "x q = x p"
proof -
  from setAnimation_returns [OF assms]
  have "setAnimation key p = Returned () (final (setAnimation key p))" .
  moreover have "x (final (setAnimation key p)) = x p"
    by (simp add: setAnimation_keeps)
  ultimately show thesis using that by blast
qed

lemma key_actions_distinct:
  "isKeyActionRight key \<Longrightarrow> \<not> isKeyActionLeft key"
  "isKeyActionRight key \<Longrightarrow> \<not> isKeyActionDash key"
  "isKeyActionLeft key \<Longrightarrow> \<not> isKeyActionDash key"
  "isKeyActionLeft key \<Longrightarrow> \<not> isKeyActionRight key"
  by (simp_all add: isKeyActionLeft_def isKeyActionRight_def isKeyActionDash_def)

lemma handleKeyDown_parallax:
  assumes "playerData (self w) key = Some (Descriptor a)"
  shows "returned (handleKeyDown key w)"
    and "isKeyActionRight key \<Longrightarrow> backgroundHillsSpeed (env (final (handleKeyDown key w))) = 0.4"
    and "isKeyActionRight key \<Longrightarrow> backgroundMountainsSpeed (env (final (handleKeyDown key w))) = 0.1"
    and "isKeyActionLeft key \<Longrightarrow> 2 < x (self w) \<Longrightarrow>
           backgroundHillsSpeed (env (final (handleKeyDown key w))) = - 0.4"
    and "isKeyActionLeft key \<Longrightarrow> 2 < x (self w) \<Longrightarrow>
           backgroundMountainsSpeed (env (final (handleKeyDown key w))) = - 0.1"
    and "isKeyActionLeft key \<Longrightarrow> \<not> 2 < x (self w) \<Longrightarrow>
           backgroundHillsSpeed (env (final (handleKeyDown key w))) = backgroundHillsSpeed (env w)"
    and "isKeyActionLeft key \<Longrightarrow> \<not> 2 < x (self w) \<Longrightarrow>
           backgroundMountainsSpeed (env (final (handleKeyDown key w))) =
             backgroundMountainsSpeed (env w)"
proof -
  have "get (playerData ((self w)\<lparr>pressedKeys :=
      (pressedKeys (self w))(key \<mapsto> get (playerData (self w)) key)\<rparr>)) key = Descriptor a"
    using assms by (simp add: get_def)
  from setAnimation_Returned [OF this] obtain q where
    r: "setAnimation key ((self w)\<lparr>pressedKeys :=
      (pressedKeys (self w))(key \<mapsto> get (playerData (self w)) key)\<rparr>) = Returned () q"
    and x: "x q = x (self w)"
    by auto
  have o: "hasOwnProperty (playerData (self w)) key"
    using assms by (simp add: hasOwnProperty_def)
  note simps = handleKeyDown_def Let_def r x o key_actions_distinct
  show "returned (handleKeyDown key w)"
    by (simp add: simps)
  show "isKeyActionRight key \<Longrightarrow> backgroundHillsSpeed (env (final (handleKeyDown key w))) = 0.4"
    by (simp add: simps)
  show "isKeyActionRight key \<Longrightarrow> backgroundMountainsSpeed (env (final (handleKeyDown key w))) = 0.1"
    by (simp add: simps)
  show "isKeyActionLeft key \<Longrightarrow> 2 < x (self w) \<Longrightarrow>
           backgroundHillsSpeed (env (final (handleKeyDown key w))) = - 0.4"
    by (simp add: simps)
  show  "isKeyActionLeft key \<Longrightarrow> 2 < x (self w) \<Longrightarrow>
           backgroundMountainsSpeed (env (final (handleKeyDown key w))) = - 0.1"
    by (simp add: simps)
  show "isKeyActionLeft key \<Longrightarrow> \<not> 2 < x (self w) \<Longrightarrow>
           backgroundHillsSpeed (env (final (handleKeyDown key w))) = backgroundHillsSpeed (env w)"
    by (simp add: simps)
  show "isKeyActionLeft key \<Longrightarrow> \<not> 2 < x (self w) \<Longrightarrow>
           backgroundMountainsSpeed (env (final (handleKeyDown key w))) =
             backgroundMountainsSpeed (env w)"
    by (simp add: simps)
qed

lemma handleKeyUp_parallax:
  assumes "playerData (self w) key = Some (Descriptor a)"
    and "isKeyActionLeft key \<or> isKeyActionRight key \<or> isKeyActionDash key"
  shows "returned (handleKeyUp key w)"
    and "backgroundHillsSpeed (env (final (handleKeyUp key w))) = 0"
    and "backgroundMountainsSpeed (env (final (handleKeyUp key w))) = 0"
proof -
  have "get (playerData (if has (pressedKeys (self w)) key
      then (self w)\<lparr>pressedKeys := (pressedKeys (self w))(key := None)\<rparr> else self w)) key =
      Descriptor a"
    using assms by (simp add: get_def)
  from setAnimation_Returned [OF this] obtain q where
    r: "setAnimation key (if has (pressedKeys (self w)) key
      then (self w)\<lparr>pressedKeys := (pressedKeys (self w))(key := None)\<rparr> else self w) =
      Returned () q"
    by auto
  have o: "hasOwnProperty (playerData (self w)) key"
    using assms by (simp add: hasOwnProperty_def)
  note simps = handleKeyUp_def Let_def r o
  show "returned (handleKeyUp key w)"
    using assms(2) by (simp add: simps)
  show "backgroundHillsSpeed (env (final (handleKeyUp key w))) = 0"
    using assms(2) by (simp add: simps)
  show "backgroundMountainsSpeed (env (final (handleKeyUp key w))) = 0"
    using assms(2) by (simp add: simps)
qed












subsection \<open>Keys without a descriptor\<close>

text \<open>
  C7. A key-down or key-up event whose key has no entry in the player's table of
  animation descriptors changes nothing: both handlers return the world they were
  given, so \<open>pressedKeys\<close>, \<open>directionKey\<close>, \<open>isIdle\<close>, the parallax speeds and every
  other field are as before.
\<close>

theorem unrecognized_key_ignored:
  "\<not> hasOwnProperty (playerData (self w)) key \<Longrightarrow>
   handleKeyDown key w = Returned () w \<and> handleKeyUp key w = Returned () w"
  by (simp add: handleKeyDown_def handleKeyUp_def)

theorem unrecognized_key_ignored_witness:
  "\<not> hasOwnProperty (playerData (self (start ''normal'' 1000))) ''q'' \<and>
   handleKeyDown ''q'' (start ''normal'' 1000) = Returned () (start ''normal'' 1000) \<and>
   handleKeyUp ''q'' (start ''normal'' 1000) = Returned () (start ''normal'' 1000)"
proof -
  have h: "\<not> hasOwnProperty (playerData (self (start ''normal'' 1000))) ''q''"
    by (simp add: sample_defs hasOwnProperty_def)
  from unrecognized_key_ignored [OF h] h show ?thesis by simp
qed

subsection \<open>Enemies on easy difficulty\<close>



subsection \<open>The death sequence\<close>

text \<open>
  C1. Take any sequence of collisions with goombas or flying goombas on a difficulty
  other than easy. While \<open>isDying\<close> holds, such a collision schedules nothing: the
  pending timers are as before. From a player that is not dying, the whole sequence
  schedules exactly one restart, by its first collision; so the number of scheduled
  restarts grows by at most one. And whatever is delivered to a dying player, it is
  dying afterwards, unless what was delivered is the completion of a level transition
  that a restart callback was awaiting.
\<close>

theorem death_sequence_once:
  assumes "\<forall>tp \<in> set tps. enemy tp" and "difficulty (env w) \<noteq> ''easy''"
  shows "(isDying (self w) \<longrightarrow> timers (fold deliver (map Collision tps) w) = timers w) \<and>
         (\<not> isDying (self w) \<and> tps \<noteq> [] \<longrightarrow>
            timers (fold deliver (map Collision tps) w) = timers w @ [(700, RestartLevel)]) \<and>
         restarts (fold deliver (map Collision tps) w) \<le> restarts w + 1 \<and>
         (\<forall>e v. isDying (self v) \<and> \<not> isDying (self (deliver e v)) \<longrightarrow>
            e = TransitionCompleted \<and> 0 < awaiting v)"
  using lethal_collisions [OF assms] deliver_isDying
  by (auto simp add: restarts_def)

theorem death_sequence_once_witness:
  "enemy (contact ''goomba'' False True False) \<and>
   enemy (contact ''flyingGoomba'' True False False) \<and>
   difficulty (env (start ''normal'' 1000)) \<noteq> ''easy'' \<and>
   \<not> isDying (self (start ''normal'' 1000)) \<and>
   timers (fold deliver (map Collision
     [contact ''goomba'' False True False, contact ''flyingGoomba'' True False False,
      contact ''goomba'' False True False]) (start ''normal'' 1000)) = [(700, RestartLevel)] \<and>
   isDying (self (deliver (Collision (contact ''goomba'' False True False))
     (start ''normal'' 1000))) \<and>
   timers (fold deliver (map Collision
     [contact ''flyingGoomba'' True False False, contact ''goomba'' False True False])
     (deliver (Collision (contact ''goomba'' False True False)) (start ''normal'' 1000))) =
   timers (deliver (Collision (contact ''goomba'' False True False)) (start ''normal'' 1000)) \<and>
   isDying (self (fold deliver [Collision (contact ''goomba'' False True False), Timeout 0]
     (start ''normal'' 1000))) \<and>
   \<not> isDying (self (deliver TransitionCompleted
     (fold deliver [Collision (contact ''goomba'' False True False), Timeout 0]
       (start ''normal'' 1000)))) \<and>
   0 < awaiting (fold deliver [Collision (contact ''goomba'' False True False), Timeout 0]
     (start ''normal'' 1000))"
proof -
  have h1: "\<forall>tp \<in> set [contact ''goomba'' False True False,
      contact ''flyingGoomba'' True False False, contact ''goomba'' False True False]. enemy tp"
    by (simp add: contact_def enemy_def)
  have h1': "\<forall>tp \<in> set [contact ''flyingGoomba'' True False False,
      contact ''goomba'' False True False]. enemy tp"
    by (simp add: contact_def enemy_def)
  have h2: "difficulty (env (start ''normal'' 1000)) \<noteq> ''easy''"
    by (simp add: sample_defs)
  have h3: "\<not> isDying (self (start ''normal'' 1000))"
    by (simp add: sample_defs)
  have h4: "timers (start ''normal'' 1000) = []"
    by (simp add: sample_defs)
  have h5: "isDying (self (deliver (Collision (contact ''goomba'' False True False))
      (start ''normal'' 1000)))"
    "difficulty (env (deliver (Collision (contact ''goomba'' False True False))
      (start ''normal'' 1000))) \<noteq> ''easy''"
    by (simp_all add: sample_defs step_defs)
  have h6: "isDying (self (fold deliver [Collision (contact ''goomba'' False True False), Timeout 0]
      (start ''normal'' 1000)))"
    "\<not> isDying (self (deliver TransitionCompleted
      (fold deliver [Collision (contact ''goomba'' False True False), Timeout 0]
        (start ''normal'' 1000))))"
    by (simp_all add: sample_defs step_defs run_def resume_def)
  have e: "enemy (contact ''goomba'' False True False)"
    "enemy (contact ''flyingGoomba'' True False False)"
    using h1 by simp_all
  from death_sequence_once [OF h1 h2] h3
  have "timers (fold deliver (map Collision
     [contact ''goomba'' False True False, contact ''flyingGoomba'' True False False,
      contact ''goomba'' False True False]) (start ''normal'' 1000)) =
     timers (start ''normal'' 1000) @ [(700, RestartLevel)]"
    by blast
  with h4 have a: "timers (fold deliver (map Collision
     [contact ''goomba'' False True False, contact ''flyingGoomba'' True False False,
      contact ''goomba'' False True False]) (start ''normal'' 1000)) = [(700, RestartLevel)]"
    by simp
  from death_sequence_once [OF h1' h5(2)] h5(1)
  have b: "timers (fold deliver (map Collision
     [contact ''flyingGoomba'' True False False, contact ''goomba'' False True False])
     (deliver (Collision (contact ''goomba'' False True False)) (start ''normal'' 1000))) =
     timers (deliver (Collision (contact ''goomba'' False True False)) (start ''normal'' 1000))"
    by blast
  from death_sequence_once [OF h1 h2] h6
  have c: "0 < awaiting (fold deliver [Collision (contact ''goomba'' False True False), Timeout 0]
     (start ''normal'' 1000))"
    by blast
  from e h2 h3 a h5(1) b h6 c show ?thesis by blast
qed

subsection \<open>Enemies on the other difficulties\<close>

text \<open>
  C8. On a difficulty other than easy, a collision with a goomba or a flying goomba
  runs the lethal branch whatever value \<open>b\<close> the invincibility flag had: the method
  returns, the canvas carries the death-spin transform (rotation \<open>90 * direction\<close>,
  translation \<open>canvas.height * 0.5 * direction\<close>), the death sound has been played,
  the player is dying, and a restart with delay 700 has been scheduled unless the
  player was dying already.
\<close>

theorem lethal_branch_always_runs:
  assumes "enemy (collisionData (self w))" and "difficulty (env w) \<noteq> ''easy''"
  shows "returned (collisionAction (w\<lparr>env := (env w)\<lparr>invincible := b\<rparr>\<rparr>)) \<and>
         canvas_transform (self (final (collisionAction (w\<lparr>env := (env w)\<lparr>invincible := b\<rparr>\<rparr>)))) =
           Some (RotateTranslate
             (90 * (if other_left (collisionData (self w)) then - 1 else 1))
             (canvas_height (self w) * 0.5 *
                (if other_left (collisionData (self w)) then - 1 else 1))) \<and>
         audio (final (collisionAction (w\<lparr>env := (env w)\<lparr>invincible := b\<rparr>\<rparr>))) =
           audio w @ [PlayerDeath] \<and>
         timers (final (collisionAction (w\<lparr>env := (env w)\<lparr>invincible := b\<rparr>\<rparr>))) =
           timers w @ (if isDying (self w) then [] else [(700, RestartLevel)]) \<and>
         isDying (self (final (collisionAction (w\<lparr>env := (env w)\<lparr>invincible := b\<rparr>\<rparr>))))"
proof -
  have e: "enemy (collisionData (self (w\<lparr>env := (env w)\<lparr>invincible := b\<rparr>\<rparr>)))"
    and d: "difficulty (env (w\<lparr>env := (env w)\<lparr>invincible := b\<rparr>\<rparr>)) \<noteq> ''easy''"
    using assms by simp_all
  from enemy_collision_lethal(1,3,4,5,6) [OF e d] show ?thesis by simp
qed

theorem lethal_branch_always_runs_witness:
  "enemy (collisionData (self (touch (contact ''flyingGoomba'' True False False)
      (start ''hard'' 1000)))) \<and>
   difficulty (env (touch (contact ''flyingGoomba'' True False False) (start ''hard'' 1000)))
     \<noteq> ''easy'' \<and>
   (\<forall>b. canvas_transform (self (final (collisionAction
       ((touch (contact ''flyingGoomba'' True False False) (start ''hard'' 1000))
          \<lparr>env := (env (touch (contact ''flyingGoomba'' True False False) (start ''hard'' 1000)))
             \<lparr>invincible := b\<rparr>\<rparr>)))) = Some (RotateTranslate (- 90) (- 300)) \<and>
     audio (final (collisionAction
       ((touch (contact ''flyingGoomba'' True False False) (start ''hard'' 1000))
          \<lparr>env := (env (touch (contact ''flyingGoomba'' True False False) (start ''hard'' 1000)))
             \<lparr>invincible := b\<rparr>\<rparr>))) = [PlayerDeath] \<and>
     timers (final (collisionAction
       ((touch (contact ''flyingGoomba'' True False False) (start ''hard'' 1000))
          \<lparr>env := (env (touch (contact ''flyingGoomba'' True False False) (start ''hard'' 1000)))
             \<lparr>invincible := b\<rparr>\<rparr>))) = [(700, RestartLevel)])"
proof -
  have h1: "enemy (collisionData (self (touch (contact ''flyingGoomba'' True False False)
      (start ''hard'' 1000))))"
    by (simp add: sample_defs enemy_def)
  have h2: "difficulty (env (touch (contact ''flyingGoomba'' True False False)
      (start ''hard'' 1000))) \<noteq> ''easy''"
    by (simp add: sample_defs)
  have h3: "other_left (collisionData (self (touch (contact ''flyingGoomba'' True False False)
      (start ''hard'' 1000))))"
    "canvas_height (self (touch (contact ''flyingGoomba'' True False False)
      (start ''hard'' 1000))) = 600"
    "audio (touch (contact ''flyingGoomba'' True False False) (start ''hard'' 1000)) = []"
    "timers (touch (contact ''flyingGoomba'' True False False) (start ''hard'' 1000)) = []"
    "\<not> isDying (self (touch (contact ''flyingGoomba'' True False False) (start ''hard'' 1000)))"
    by (simp_all add: sample_defs)
  from lethal_branch_always_runs [OF h1 h2] h1 h2 h3 show ?thesis by simp
qed


text \<open>
  C10. The constructor leaves the invincibility flag of the environment false,
  whatever it was; a collision with a goomba or a flying goomba on a difficulty
  other than easy leaves it true.
\<close>

theorem invincible_flag:
  "invincible (env (constructor c data h)) = False \<and>
   (enemy (collisionData (self w)) \<and> difficulty (env w) \<noteq> ''easy'' \<longrightarrow>
      invincible (env (final (collisionAction w))) = True)"
proof
  show "invincible (env (constructor c data h)) = False"
    by (simp add: constructor_def Let_def host.defs world.defs)
  show "enemy (collisionData (self w)) \<and> difficulty (env w) \<noteq> ''easy'' \<longrightarrow>
      invincible (env (final (collisionAction w))) = True"
    using enemy_collision_lethal(2) [of w] by simp
qed

theorem invincible_flag_witness:
  "invincible (env (browser ''normal'' 1000)) \<and>
   \<not> invincible (env (start ''normal'' 1000)) \<and>
   enemy (collisionData (self (touch (contact ''goomba'' False True False)
      (start ''normal'' 1000)))) \<and>
   difficulty (env (touch (contact ''goomba'' False True False) (start ''normal'' 1000)))
     \<noteq> ''easy'' \<and>
   invincible (env (final (collisionAction (touch (contact ''goomba'' False True False)
      (start ''normal'' 1000)))))"
proof -
  have h0: "invincible (env (browser ''normal'' 1000))"
    by (simp add: browser_def)
  have h1: "enemy (collisionData (self (touch (contact ''goomba'' False True False)
      (start ''normal'' 1000))))"
    by (simp add: sample_defs enemy_def)
  have h2: "difficulty (env (touch (contact ''goomba'' False True False)
      (start ''normal'' 1000))) \<noteq> ''easy''"
    by (simp add: sample_defs)
  have h3: "\<not> invincible (env (start ''normal'' 1000))"
    using invincible_flag [of mario sprite "browser ''normal'' 1000"]
    by (simp add: start_def)
  from invincible_flag [of mario sprite "browser ''normal'' 1000"
      "touch (contact ''goomba'' False True False) (start ''normal'' 1000)"] h0 h1 h2 h3
  show ?thesis by simp
qed

subsection \<open>The one-way platform\<close>

text \<open>
  C5, as the code has it. A collision with a jump platform in which the player's own
  top face touches leaves \<open>movement.down\<close> and \<open>gravityEnabled\<close> false, whether
  the animation call that follows returns or throws. A later collision with anything
  that is not a jump platform, met with \<open>movement.down\<close> false, returns with both
  restored to true. A collision with a jump platform that touches neither the
  platform's left face, nor its right face, nor the player's top leaves both as they
  were: the restoring branch is the \<^verbatim>\<open>else\<close> of the test of the id.
\<close>

theorem one_way_platform:
  "(other_id (collisionData (self w)) = ''jumpPlatform'' \<and> this_top (collisionData (self w)) \<longrightarrow>
      \<not> down (movement (self (final (collisionAction w)))) \<and>
      \<not> gravityEnabled (self (final (collisionAction w)))) \<and>
   (other_id (collisionData (self w)) \<noteq> ''jumpPlatform'' \<and> \<not> down (movement (self w)) \<longrightarrow>
      returned (collisionAction w) \<and>
      down (movement (self (final (collisionAction w)))) \<and>
      gravityEnabled (self (final (collisionAction w)))) \<and>
   (other_id (collisionData (self w)) = ''jumpPlatform'' \<and>
    \<not> other_left (collisionData (self w)) \<and> \<not> other_right (collisionData (self w)) \<and>
    \<not> this_top (collisionData (self w)) \<longrightarrow>
      returned (collisionAction w) \<and>
      down (movement (self (final (collisionAction w)))) = down (movement (self w)) \<and>
      gravityEnabled (self (final (collisionAction w))) = gravityEnabled (self w))"
proof (intro conjI impI)
  assume a: "other_id (collisionData (self w)) = ''jumpPlatform'' \<and>
    this_top (collisionData (self w))"
  then have "other_id (collisionData (self (collision_enemy (collision_tube w)))) = ''jumpPlatform''"
    and "this_top (collisionData (self (collision_enemy (collision_tube w))))"
    by (simp_all add: collision_enemy_data collision_tube_data)
  from collision_jumpPlatform_top [OF this]
  show "\<not> down (movement (self (final (collisionAction w))))"
    and "\<not> gravityEnabled (self (final (collisionAction w)))"
    by (simp_all add: collisionAction_def)
next
  assume a: "other_id (collisionData (self w)) \<noteq> ''jumpPlatform'' \<and>
    \<not> down (movement (self w))"
  then have i: "other_id (collisionData (self (collision_enemy (collision_tube w)))) \<noteq>
      ''jumpPlatform''"
    and d: "\<not> down (movement (self (collision_enemy (collision_tube w))))"
    by (simp_all add: collision_enemy_data collision_tube_data collision_tube_down)
  from collision_jumpPlatform_other [OF i] d
  show "returned (collisionAction w)"
    and "down (movement (self (final (collisionAction w))))"
    and "gravityEnabled (self (final (collisionAction w)))"
    by (simp_all add: collisionAction_def)
next
  assume a: "other_id (collisionData (self w)) = ''jumpPlatform'' \<and>
    \<not> other_left (collisionData (self w)) \<and> \<not> other_right (collisionData (self w)) \<and>
    \<not> this_top (collisionData (self w))"
  then have "other_id (collisionData (self (collision_enemy (collision_tube w)))) = ''jumpPlatform''"
    and "\<not> other_left (collisionData (self (collision_enemy (collision_tube w))))"
    and "\<not> other_right (collisionData (self (collision_enemy (collision_tube w))))"
    and "\<not> this_top (collisionData (self (collision_enemy (collision_tube w))))"
    by (simp_all add: collision_enemy_data collision_tube_data)
  from collision_jumpPlatform_none [OF this] a
  show "returned (collisionAction w)"
    and "down (movement (self (final (collisionAction w)))) = down (movement (self w))"
    and "gravityEnabled (self (final (collisionAction w))) = gravityEnabled (self w)"
    by (simp_all add: collisionAction_def collision_enemy_data collision_tube_down
        collision_tube_gravity)
qed

theorem one_way_platform_witness:
  "other_id (collisionData (self (touch (contact ''jumpPlatform'' False False True)
      (start ''normal'' 1000)))) = ''jumpPlatform'' \<and>
   this_top (collisionData (self (touch (contact ''jumpPlatform'' False False True)
      (start ''normal'' 1000)))) \<and>
   down (movement (self (start ''normal'' 1000))) \<and>
   \<not> down (movement (self (final (collisionAction (touch (contact ''jumpPlatform'' False False True)
      (start ''normal'' 1000)))))) \<and>
   \<not> gravityEnabled (self (final (collisionAction (touch (contact ''jumpPlatform'' False False True)
      (start ''normal'' 1000))))) \<and>
   \<not> down (movement (self (touch (contact ''floor'' False False False)
      (deliver (Collision (contact ''jumpPlatform'' False False True)) (start ''normal'' 1000))))) \<and>
   down (movement (self (final (collisionAction (touch (contact ''floor'' False False False)
      (deliver (Collision (contact ''jumpPlatform'' False False True))
        (start ''normal'' 1000))))))) \<and>
   gravityEnabled (self (final (collisionAction (touch (contact ''floor'' False False False)
      (deliver (Collision (contact ''jumpPlatform'' False False True))
        (start ''normal'' 1000)))))) \<and>
   returned (collisionAction (touch (contact ''jumpPlatform'' False False False)
      (start ''normal'' 1000))) \<and>
   down (movement (self (final (collisionAction (touch (contact ''jumpPlatform'' False False False)
      (start ''normal'' 1000)))))) \<and>
   gravityEnabled (self (final (collisionAction (touch (contact ''jumpPlatform'' False False False)
      (start ''normal'' 1000)))))"
proof -
  have h1: "other_id (collisionData (self (touch (contact ''jumpPlatform'' False False True)
      (start ''normal'' 1000)))) = ''jumpPlatform''"
    "this_top (collisionData (self (touch (contact ''jumpPlatform'' False False True)
      (start ''normal'' 1000))))"
    "down (movement (self (start ''normal'' 1000)))"
    by (simp_all add: sample_defs)
  have h2: "\<not> down (movement (self (deliver (Collision (contact ''jumpPlatform'' False False True))
      (start ''normal'' 1000))))"
    using one_way_platform [of "touch (contact ''jumpPlatform'' False False True)
      (start ''normal'' 1000)"] h1 by simp
  have h3: "other_id (collisionData (self (touch (contact ''floor'' False False False)
      (deliver (Collision (contact ''jumpPlatform'' False False True))
        (start ''normal'' 1000))))) \<noteq> ''jumpPlatform''"
    "\<not> down (movement (self (touch (contact ''floor'' False False False)
      (deliver (Collision (contact ''jumpPlatform'' False False True))
        (start ''normal'' 1000)))))"
    using h2 by (simp_all add: touch_def contact_def)
  have h4: "other_id (collisionData (self (touch (contact ''jumpPlatform'' False False False)
      (start ''normal'' 1000)))) = ''jumpPlatform''"
    "\<not> other_left (collisionData (self (touch (contact ''jumpPlatform'' False False False)
      (start ''normal'' 1000))))"
    "\<not> other_right (collisionData (self (touch (contact ''jumpPlatform'' False False False)
      (start ''normal'' 1000))))"
    "\<not> this_top (collisionData (self (touch (contact ''jumpPlatform'' False False False)
      (start ''normal'' 1000))))"
    "down (movement (self (touch (contact ''jumpPlatform'' False False False)
      (start ''normal'' 1000))))"
    "gravityEnabled (self (touch (contact ''jumpPlatform'' False False False)
      (start ''normal'' 1000)))"
    by (simp_all add: sample_defs)
  from one_way_platform [of "touch (contact ''jumpPlatform'' False False True)
      (start ''normal'' 1000)"]
    one_way_platform [of "touch (contact ''floor'' False False False)
      (deliver (Collision (contact ''jumpPlatform'' False False True)) (start ''normal'' 1000))"]
    one_way_platform [of "touch (contact ''jumpPlatform'' False False False)
      (start ''normal'' 1000)"]
    h1 h3 h4
  show ?thesis by simp
qed

text \<open>The claim as stated fails: the player stands on the platform, and the next
  collision is with the platform again and matches none of the three conditions;
  \<open>movement.down\<close> and \<open>gravityEnabled\<close> stay false.\<close>

theorem platform_edge_counterexample:
  "\<not> down (movement (self (deliver (Collision (contact ''jumpPlatform'' False False True))
        (start ''normal'' 1000)))) \<and>
   other_id (contact ''jumpPlatform'' False False False) = ''jumpPlatform'' \<and>
   \<not> other_left (contact ''jumpPlatform'' False False False) \<and>
   \<not> other_right (contact ''jumpPlatform'' False False False) \<and>
   \<not> this_top (contact ''jumpPlatform'' False False False) \<and>
   \<not> down (movement (self (deliver (Collision (contact ''jumpPlatform'' False False False))
        (deliver (Collision (contact ''jumpPlatform'' False False True))
          (start ''normal'' 1000))))) \<and>
   \<not> gravityEnabled (self (deliver (Collision (contact ''jumpPlatform'' False False False))
        (deliver (Collision (contact ''jumpPlatform'' False False True))
          (start ''normal'' 1000))))"
  by (simp add: sample_defs step_defs)

subsection \<open>Parallax speeds\<close>

text \<open>
  C6, as the code has it, for a key that has a descriptor in the player's table.
  Pressing the right-action key sets the hills speed to 0.4 and the mountains speed
  to 0.1. Pressing the left-action key sets them to -0.4 and -0.1 when \<open>x > 2\<close>,
  and leaves them as they were when \<open>x \<le> 2\<close>. Releasing the left-action, the
  right-action or the dash key sets both to 0.
\<close>

theorem parallax_on_keys:
  assumes "playerData (self w) key = Some (Descriptor a)"
  shows "(isKeyActionRight key \<longrightarrow>
            returned (handleKeyDown key w) \<and>
            backgroundHillsSpeed (env (final (handleKeyDown key w))) = 0.4 \<and>
            backgroundMountainsSpeed (env (final (handleKeyDown key w))) = 0.1) \<and>
         (isKeyActionLeft key \<and> 2 < x (self w) \<longrightarrow>
            returned (handleKeyDown key w) \<and>
            backgroundHillsSpeed (env (final (handleKeyDown key w))) = - 0.4 \<and>
            backgroundMountainsSpeed (env (final (handleKeyDown key w))) = - 0.1) \<and>
         (isKeyActionLeft key \<and> x (self w) \<le> 2 \<longrightarrow>
            returned (handleKeyDown key w) \<and>
            backgroundHillsSpeed (env (final (handleKeyDown key w))) =
              backgroundHillsSpeed (env w) \<and>
            backgroundMountainsSpeed (env (final (handleKeyDown key w))) =
              backgroundMountainsSpeed (env w)) \<and>
         (isKeyActionLeft key \<or> isKeyActionRight key \<or> isKeyActionDash key \<longrightarrow>
            returned (handleKeyUp key w) \<and>
            backgroundHillsSpeed (env (final (handleKeyUp key w))) = 0 \<and>
            backgroundMountainsSpeed (env (final (handleKeyUp key w))) = 0)"
  using handleKeyDown_parallax [OF assms] handleKeyUp_parallax [OF assms]
  by (simp add: not_less)

theorem parallax_on_keys_witness:
  "playerData (self (start ''normal'' 1000)) ''d'' =
     Some (Descriptor \<lparr>row = 2, frames = 7, idleFrame = Some \<lparr>column = 7, idle_frames = 0\<rparr>\<rparr>) \<and>
   backgroundHillsSpeed (env (final (handleKeyDown ''d'' (start ''normal'' 1000)))) = 0.4 \<and>
   backgroundMountainsSpeed (env (final (handleKeyDown ''d'' (start ''normal'' 1000)))) = 0.1 \<and>
   backgroundHillsSpeed (env (final (handleKeyUp ''d'' (start ''normal'' 1000)))) = 0 \<and>
   playerData (self (start ''normal'' 1000)) ''a'' =
     Some (Descriptor \<lparr>row = 3, frames = 7, idleFrame = Some \<lparr>column = 7, idle_frames = 0\<rparr>\<rparr>) \<and>
   2 < x (self (start ''normal'' 1000)) \<and>
   backgroundHillsSpeed (env (final (handleKeyDown ''a'' (start ''normal'' 1000)))) = - 0.4 \<and>
   backgroundMountainsSpeed (env (final (handleKeyDown ''a'' (start ''normal'' 1000)))) = - 0.1 \<and>
   playerData (self (place 2 (start ''normal'' 1000))) ''a'' =
     Some (Descriptor \<lparr>row = 3, frames = 7, idleFrame = Some \<lparr>column = 7, idle_frames = 0\<rparr>\<rparr>) \<and>
   x (self (place 2 (start ''normal'' 1000))) \<le> 2 \<and>
   backgroundHillsSpeed (env (final (handleKeyDown ''a'' (place 2 (start ''normal'' 1000))))) = 0"
proof -
  have d: "playerData (self (start ''normal'' 1000)) ''d'' =
     Some (Descriptor \<lparr>row = 2, frames = 7, idleFrame = Some \<lparr>column = 7, idle_frames = 0\<rparr>\<rparr>)"
    by (simp add: sample_defs)
  have a: "playerData (self (start ''normal'' 1000)) ''a'' =
     Some (Descriptor \<lparr>row = 3, frames = 7, idleFrame = Some \<lparr>column = 7, idle_frames = 0\<rparr>\<rparr>)"
    by (simp add: sample_defs)
  have x: "2 < x (self (start ''normal'' 1000))"
    by (simp add: sample_defs)
  have e: "playerData (self (place 2 (start ''normal'' 1000))) ''a'' =
     Some (Descriptor \<lparr>row = 3, frames = 7, idleFrame = Some \<lparr>column = 7, idle_frames = 0\<rparr>\<rparr>)"
    "x (self (place 2 (start ''normal'' 1000))) \<le> 2"
    "backgroundHillsSpeed (env (place 2 (start ''normal'' 1000))) = 0"
    by (simp_all add: sample_defs place_def)
  from parallax_on_keys [OF d] parallax_on_keys [OF a] parallax_on_keys [OF e(1)] d a x e
  show ?thesis
    by (simp add: isKeyActionLeft_def isKeyActionRight_def)
qed

text \<open>The claim as stated fails: a press of the left-action key at \<open>x = 0\<close> leaves
  both speeds at 0.\<close>

theorem left_press_at_edge_counterexample:
  "hasOwnProperty (playerData (self (place 0 (start ''normal'' 1000)))) ''a'' \<and>
   returned (handleKeyDown ''a'' (place 0 (start ''normal'' 1000))) \<and>
   backgroundHillsSpeed (env (final (handleKeyDown ''a'' (place 0 (start ''normal'' 1000))))) = 0 \<and>
   backgroundMountainsSpeed (env (final (handleKeyDown ''a'' (place 0 (start ''normal'' 1000))))) = 0"
  by (simp add: sample_defs step_defs)

subsection \<open>Jump heights\<close>




subsection \<open>The dash\<close>




subsection \<open>The tube clamp\<close>





end
